theory Spec2Isabelle
  imports Complex_Main
begin

section \<open>Errors\<close>

text \<open>
  The exceptions that the modelled operations can raise. \<open>RecursionError\<close> is what
  Python raises when nested calls exceed the interpreter's recursion limit; the
  serialisers below take that limit as a fuel argument. \<open>Unmodelled\<close> marks an
  input that a model does not cover: a format directive other than \<open>%(key)s\<close> and
  \<open>%%\<close> (the source uses only the former), and a commit of a session whose two
  sides of a link disagree.
\<close>

datatype error =
  RecursionError | ValueError | KeyError | ArgumentError | InvalidRequestError | Unmodelled

section \<open>Naming convention of foreign-key constraints (models.py, lines 7-11)\<close>

text \<open>
  \<^verbatim>\<open>
  metadata = MetaData(
      naming_convention={
          "fk": "fk_%(table_name)s_%(column_0_name)s_%(referred_table_name)s",
      }
  )
  \<close>
  SQLAlchemy names a foreign-key constraint that has no explicit name by applying
  Python's \<open>%\<close> operator to this template and a dictionary of tokens.
\<close>

definition naming_convention_fk :: string where
  "naming_convention_fk = ''fk_%(table_name)s_%(column_0_name)s_%(referred_table_name)s''"

text \<open>
  Python's \<open>template % mapping\<close>, read character by character. The scanner is in
  one of four states: in literal text, just after a \<open>%\<close>, inside the parentheses of a
  key, or after the closing parenthesis where the conversion character is expected.
\<close>

datatype fmt_state = Literal | Percent | Key string | Conversion string

fun percent_format :: "fmt_state \<Rightarrow> string \<Rightarrow> (string \<rightharpoonup> string) \<Rightarrow> error + string" where
  "percent_format Literal [] d = Inr []"
| "percent_format Literal (c # cs) d =
     (if c = CHR ''%'' then percent_format Percent cs d
      else map_sum id ((#) c) (percent_format Literal cs d))"
| "percent_format Percent [] d = Inl ValueError"
| "percent_format Percent (c # cs) d =
     (if c = CHR ''('' then percent_format (Key []) cs d
      else if c = CHR ''%'' then map_sum id ((#) c) (percent_format Literal cs d)
      else Inl Unmodelled)"
| "percent_format (Key k) [] d = Inl ValueError"
| "percent_format (Key k) (c # cs) d =
     (if c = CHR '')'' then percent_format (Conversion k) cs d
      else percent_format (Key (k @ [c])) cs d)"
| "percent_format (Conversion k) [] d = Inl ValueError"
| "percent_format (Conversion k) (c # cs) d =
     (if c = CHR ''s'' then
        (case d k of
           None \<Rightarrow> Inl KeyError
         | Some v \<Rightarrow> map_sum id ((@) v) (percent_format Literal cs d))
      else Inl Unmodelled)"

text \<open>Python's \<open>str.split(sep)\<close> for a one-character separator.\<close>

fun split_on :: "char \<Rightarrow> string \<Rightarrow> string list" where
  "split_on sep [] = [[]]"
| "split_on sep (c # cs) =
     (if c = sep then [] # split_on sep cs
      else (case split_on sep cs of
              [] \<Rightarrow> [[c]]
            | w # ws \<Rightarrow> (c # w) # ws))"

text \<open>
  The token \<open>referred_table_name\<close>: SQLAlchemy splits the target of the foreign key
  (\<open>'customers.id'\<close>) at the dots into table and column, or schema, table and
  column; any other number of parts fails to unpack.
\<close>

definition referred_table_name :: "string \<Rightarrow> error + string" where
  "referred_table_name target_fullname =
     (case split_on CHR ''.'' target_fullname of
        [reftable, refcol] \<Rightarrow> Inr reftable
      | [refschema, reftable, refcol] \<Rightarrow> Inr reftable
      | _ \<Rightarrow> Inl ValueError)"

definition convention_dict :: "string \<Rightarrow> string \<Rightarrow> string \<Rightarrow> (string \<rightharpoonup> string)" where
  "convention_dict table column reftable =
     [''table_name'' \<mapsto> table, ''column_0_name'' \<mapsto> column,
      ''referred_table_name'' \<mapsto> reftable]"

text \<open>
  The name generated for the constraint of column \<open>column\<close> of table \<open>table\<close>
  declared with \<open>db.ForeignKey(target)\<close>.
\<close>

definition fk_constraint_name :: "string \<Rightarrow> string \<times> string \<Rightarrow> error + string" where
  "fk_constraint_name table fk =
     (case referred_table_name (snd fk) of
        Inl e \<Rightarrow> Inl e
      | Inr reftable \<Rightarrow>
          percent_format Literal naming_convention_fk (convention_dict table (fst fk) reftable))"

text \<open>
  The tables and the foreign keys the three model classes declare
  (\<open>__tablename__\<close>, lines 19, 39 and 57; \<open>db.ForeignKey\<close>, lines 63-72).
\<close>

definition Customer_tablename :: string where
  "Customer_tablename = ''customers''"

definition Item_tablename :: string where
  "Item_tablename = ''items''"

definition Review_tablename :: string where
  "Review_tablename = ''reviews''"

definition Review_foreign_keys :: "(string \<times> string) list" where
  "Review_foreign_keys = [(''customer_id'', ''customers.id''), (''item_id'', ''items.id'')]"

section \<open>The three tables (models.py, lines 18-79)\<close>

text \<open>
  A row of each table. \<open>id\<close> is the primary key, so it is never null in a stored
  row; every other column is declared without \<open>nullable=False\<close> (the two foreign
  keys say \<open>nullable=True\<close>), so it may hold \<open>None\<close>. A \<open>db.Float\<close> value is only
  stored and passed on, never computed with, and is represented by a real number.
\<close>

type_synonym py_float = real

record Customer =
  Customer_id :: int
  Customer_name :: "string option"

record Item =
  Item_id :: int
  Item_name :: "string option"
  Item_price :: "py_float option"

record Review =
  Review_id :: int
  Review_comment :: "string option"
  Review_customer_id :: "int option"
  Review_item_id :: "int option"

text \<open>The persisted state: the rows of the three tables, in table order.\<close>

record store =
  customers :: "Customer list"
  items :: "Item list"
  reviews :: "Review list"

subsection \<open>Relationship declarations\<close>

text \<open>
  A \<open>db.relationship(argument, back_populates=..., cascade=...)\<close> declaration;
  \<open>cascade\<close> is \<open>None\<close> where the source does not pass it.
\<close>

record relationship =
  argument :: string
  back_populates :: string
  cascade :: "string option"

definition rel_Customer_reviews :: relationship where
  "rel_Customer_reviews =
     \<lparr>argument = ''Review'', back_populates = ''customer'',
      cascade = Some ''all, delete-orphan''\<rparr>"

definition rel_Item_reviews :: relationship where
  "rel_Item_reviews =
     \<lparr>argument = ''Review'', back_populates = ''item'',
      cascade = Some ''all, delete-orphan''\<rparr>"

definition rel_Review_customer :: relationship where
  "rel_Review_customer =
     \<lparr>argument = ''Customer'', back_populates = ''reviews'', cascade = None\<rparr>"

definition rel_Review_item :: relationship where
  "rel_Review_item =
     \<lparr>argument = ''Item'', back_populates = ''reviews'', cascade = None\<rparr>"

subsection \<open>Relationship attributes, as loaded from the store\<close>

text \<open>
  \<open>Customer.reviews\<close> and \<open>Item.reviews\<close> (one-to-many): the rows of \<open>reviews\<close> whose
  foreign key equals the primary key of the parent.
\<close>

definition Customer_reviews :: "store \<Rightarrow> Customer \<Rightarrow> Review list" where
  "Customer_reviews st c =
     filter (\<lambda>r. Review_customer_id r = Some (Customer_id c)) (reviews st)"

definition Item_reviews :: "store \<Rightarrow> Item \<Rightarrow> Review list" where
  "Item_reviews st i =
     filter (\<lambda>r. Review_item_id r = Some (Item_id i)) (reviews st)"

text \<open>
  \<open>Review.customer\<close> and \<open>Review.item\<close> (many-to-one): \<open>None\<close> when the foreign key
  is null, otherwise the row with that primary key (\<open>None\<close> when there is none).
\<close>

definition Review_customer :: "store \<Rightarrow> Review \<Rightarrow> Customer option" where
  "Review_customer st r =
     (case Review_customer_id r of
        None \<Rightarrow> None
      | Some k \<Rightarrow> find (\<lambda>c. Customer_id c = k) (customers st))"

definition Review_item :: "store \<Rightarrow> Review \<Rightarrow> Item option" where
  "Review_item st r =
     (case Review_item_id r of
        None \<Rightarrow> None
      | Some k \<Rightarrow> find (\<lambda>i. Item_id i = k) (items st))"

text \<open>
  \<open>items = association_proxy('reviews', 'item')\<close> (line 32): the proxy presents the
  collection \<open>reviews\<close> with each member replaced by its attribute \<open>item\<close>.
\<close>

definition Customer_items :: "store \<Rightarrow> Customer \<Rightarrow> Item option list" where
  "Customer_items st c = map (Review_item st) (Customer_reviews st c)"

subsection \<open>Cascades and deletion\<close>

text \<open>
  SQLAlchemy reads a cascade string by splitting it at commas, dropping the
  whitespace around them and the empty pieces; \<open>all\<close> stands for the five cascades
  \<open>save-update\<close>, \<open>merge\<close>, \<open>refresh-expire\<close>, \<open>expunge\<close> and \<open>delete\<close>, and
  \<open>none\<close> clears the set. A relationship declared without a cascade has
  \<open>save-update, merge\<close>. (Whitespace at the two ends of the whole string is dropped
  here as well; the strings of the source have none.)
\<close>

definition strip :: "string \<Rightarrow> string" where
  "strip s = rev (dropWhile (\<lambda>c. c = CHR '' '') (rev (dropWhile (\<lambda>c. c = CHR '' '') s)))"

definition all_cascades :: "string list" where
  "all_cascades =
     [''delete'', ''delete-orphan'', ''all'', ''merge'', ''expunge'', ''save-update'',
      ''refresh-expire'', ''none'']"

definition cascade_options :: "string option \<Rightarrow> error + string list" where
  "cascade_options arg =
     (let vals = filter (\<lambda>w. w \<noteq> [])
                   (map strip (split_on CHR '','' (case arg of None \<Rightarrow> ''save-update, merge'' | Some s \<Rightarrow> s)))
      in if \<not> set vals \<subseteq> set all_cascades then Inl ArgumentError
         else if ''none'' \<in> set vals then Inr []
         else if ''all'' \<in> set vals then
           Inr (remdups (filter (\<lambda>w. w \<noteq> ''all'')
                  (vals @ [''save-update'', ''merge'', ''refresh-expire'', ''expunge'', ''delete''])))
         else Inr (remdups vals))"

text \<open>
  What a flush does to the child rows when their parent is deleted: with the
  \<open>delete\<close> cascade the children that refer to the parent are deleted; without it
  their foreign key is set to null.
\<close>

definition flush_children ::
    "string list \<Rightarrow> ('r \<Rightarrow> bool) \<Rightarrow> ('r \<Rightarrow> 'r) \<Rightarrow> 'r list \<Rightarrow> 'r list" where
  "flush_children opts refers nullify rows =
     (if ''delete'' \<in> set opts then filter (\<lambda>r. \<not> refers r) rows
      else map (\<lambda>r. if refers r then nullify r else r) rows)"

text \<open>
  \<open>db.session.delete(c); db.session.commit()\<close> for a Customer and for an Item. An
  object that is not persistent is refused.
\<close>

definition delete_Customer :: "store \<Rightarrow> Customer \<Rightarrow> error + store" where
  "delete_Customer st c =
     (if c \<notin> set (customers st) then Inl InvalidRequestError
      else case cascade_options (cascade rel_Customer_reviews) of
          Inl e \<Rightarrow> Inl e
        | Inr opts \<Rightarrow>
            Inr (st\<lparr>customers := filter (\<lambda>x. Customer_id x \<noteq> Customer_id c) (customers st),
                    reviews := flush_children opts
                      (\<lambda>r. Review_customer_id r = Some (Customer_id c))
                      (\<lambda>r. r\<lparr>Review_customer_id := None\<rparr>) (reviews st)\<rparr>))"

definition delete_Item :: "store \<Rightarrow> Item \<Rightarrow> error + store" where
  "delete_Item st i =
     (if i \<notin> set (items st) then Inl InvalidRequestError
      else case cascade_options (cascade rel_Item_reviews) of
          Inl e \<Rightarrow> Inl e
        | Inr opts \<Rightarrow>
            Inr (st\<lparr>items := filter (\<lambda>x. Item_id x \<noteq> Item_id i) (items st),
                    reviews := flush_children opts
                      (\<lambda>r. Review_item_id r = Some (Item_id i))
                      (\<lambda>r. r\<lparr>Review_item_id := None\<rparr>) (reviews st)\<rparr>))"

subsection \<open>Integrity of a store\<close>


text \<open>
  Referential integrity: a foreign key that is not null names an existing row.
\<close>

definition no_dangling :: "store \<Rightarrow> bool" where
  "no_dangling st \<longleftrightarrow>
     list_all (\<lambda>r.
        (case Review_customer_id r of
           None \<Rightarrow> True
         | Some k \<Rightarrow> k \<in> set (map Customer_id (customers st))) \<and>
        (case Review_item_id r of
           None \<Rightarrow> True
         | Some k \<Rightarrow> k \<in> set (map Item_id (items st)))) (reviews st)"

section \<open>Links in a session (models.py, lines 25-29, 46-50 and 74-76)\<close>

text \<open>
  A session that has loaded the store. Every row is an object of the session,
  named by its row as loaded, and the four relationship attributes are held in
  memory: they start as loaded from the store and change only through the
  operations below until the session is committed. For each of the two
  one-to-many relationships the session also records the reviews that were taken
  out of a parent's collection and not put into another since.
\<close>

record session =
  persisted :: store
  Customer_reviews_attr :: "Customer \<Rightarrow> Review list"
  Item_reviews_attr :: "Item \<Rightarrow> Review list"
  Review_customer_attr :: "Review \<Rightarrow> Customer option"
  Review_item_attr :: "Review \<Rightarrow> Item option"
  Customer_unparented :: "Review set"
  Item_unparented :: "Review set"

definition load :: "store \<Rightarrow> session" where
  "load st =
     \<lparr>persisted = st,
      Customer_reviews_attr = Customer_reviews st,
      Item_reviews_attr = Item_reviews st,
      Review_customer_attr = Review_customer st,
      Review_item_attr = Review_item st,
      Customer_unparented = {},
      Item_unparented = {}\<rparr>"

text \<open>
  What an event on the one side does to a parent's collection on the other side:
  the review is taken out of the collection of the previous parent (the first
  occurrence, as \<open>list.remove\<close> does, and the removal is recorded), and put at the
  end of the collection of the new parent.
\<close>

definition Customer_reviews_pop :: "Customer option \<Rightarrow> Review \<Rightarrow> session \<Rightarrow> session" where
  "Customer_reviews_pop old r s =
     (case old of
        None \<Rightarrow> s
      | Some p \<Rightarrow>
          s\<lparr>Customer_reviews_attr :=
               (Customer_reviews_attr s)(p := remove1 r (Customer_reviews_attr s p)),
            Customer_unparented := insert r (Customer_unparented s)\<rparr>)"

definition Customer_reviews_add :: "Customer option \<Rightarrow> Review \<Rightarrow> session \<Rightarrow> session" where
  "Customer_reviews_add new r s =
     (case new of
        None \<Rightarrow> s
      | Some p \<Rightarrow>
          s\<lparr>Customer_reviews_attr :=
               (Customer_reviews_attr s)(p := Customer_reviews_attr s p @ [r]),
            Customer_unparented := Customer_unparented s - {r}\<rparr>)"

definition Item_reviews_pop :: "Item option \<Rightarrow> Review \<Rightarrow> session \<Rightarrow> session" where
  "Item_reviews_pop old r s =
     (case old of
        None \<Rightarrow> s
      | Some p \<Rightarrow>
          s\<lparr>Item_reviews_attr :=
               (Item_reviews_attr s)(p := remove1 r (Item_reviews_attr s p)),
            Item_unparented := insert r (Item_unparented s)\<rparr>)"

definition Item_reviews_add :: "Item option \<Rightarrow> Review \<Rightarrow> session \<Rightarrow> session" where
  "Item_reviews_add new r s =
     (case new of
        None \<Rightarrow> s
      | Some p \<Rightarrow>
          s\<lparr>Item_reviews_attr :=
               (Item_reviews_attr s)(p := Item_reviews_attr s p @ [r]),
            Item_unparented := Item_unparented s - {r}\<rparr>)"

text \<open>
  \<open>r.customer = new\<close> and \<open>r.item = new\<close> (\<open>new\<close> may be \<open>None\<close>). Assigning the
  value the attribute already has changes nothing. Otherwise the attribute is
  set, and because the relationship is declared with \<open>back_populates='reviews'\<close>
  the change is passed on to the \<open>reviews\<close> collections of the old and the new
  parent.
\<close>

definition set_Review_customer :: "session \<Rightarrow> Review \<Rightarrow> Customer option \<Rightarrow> session" where
  "set_Review_customer s r new =
     (let old = Review_customer_attr s r in
      if old = new then s
      else
        (let s1 = s\<lparr>Review_customer_attr := (Review_customer_attr s)(r := new)\<rparr> in
         if back_populates rel_Review_customer = ''reviews''
         then Customer_reviews_add new r (Customer_reviews_pop old r s1)
         else s1))"

definition set_Review_item :: "session \<Rightarrow> Review \<Rightarrow> Item option \<Rightarrow> session" where
  "set_Review_item s r new =
     (let old = Review_item_attr s r in
      if old = new then s
      else
        (let s1 = s\<lparr>Review_item_attr := (Review_item_attr s)(r := new)\<rparr> in
         if back_populates rel_Review_item = ''reviews''
         then Item_reviews_add new r (Item_reviews_pop old r s1)
         else s1))"

text \<open>
  \<open>c.reviews.append(r)\<close> and \<open>i.reviews.append(r)\<close>. The review is put at the end
  of the list, whether the list holds it already or not. Because the relationship
  is declared with \<open>back_populates='customer'\<close> (\<open>'item'\<close>) the parent is assigned
  to that attribute of the review; if that changes the attribute, the review is
  taken out of the collection of its previous parent. The review then counts as
  having a parent.
\<close>

definition append_Customer_reviews :: "session \<Rightarrow> Customer \<Rightarrow> Review \<Rightarrow> session" where
  "append_Customer_reviews s c r =
     (let s1 = s\<lparr>Customer_reviews_attr :=
                   (Customer_reviews_attr s)(c := Customer_reviews_attr s c @ [r])\<rparr>;
          old = Review_customer_attr s1 r;
          s2 = (if back_populates rel_Customer_reviews = ''customer'' \<and> old \<noteq> Some c
                then Customer_reviews_pop old r
                       (s1\<lparr>Review_customer_attr := (Review_customer_attr s1)(r := Some c)\<rparr>)
                else s1)
      in s2\<lparr>Customer_unparented := Customer_unparented s2 - {r}\<rparr>)"

definition append_Item_reviews :: "session \<Rightarrow> Item \<Rightarrow> Review \<Rightarrow> session" where
  "append_Item_reviews s i r =
     (let s1 = s\<lparr>Item_reviews_attr :=
                   (Item_reviews_attr s)(i := Item_reviews_attr s i @ [r])\<rparr>;
          old = Review_item_attr s1 r;
          s2 = (if back_populates rel_Item_reviews = ''item'' \<and> old \<noteq> Some i
                then Item_reviews_pop old r
                       (s1\<lparr>Review_item_attr := (Review_item_attr s1)(r := Some i)\<rparr>)
                else s1)
      in s2\<lparr>Item_unparented := Item_unparented s2 - {r}\<rparr>)"






section \<open>Serialisation (models.py, lines 91-117)\<close>

text \<open>
  The value a schema's \<open>dump\<close> returns: \<open>None\<close>, numbers, strings, lists, and
  dictionaries, the latter as the list of their items in the order the fields are
  declared.
\<close>

datatype json =
  JNull
  | JInt int
  | JStr string
  | JFloat py_float
  | JList "json list"
  | JObj "(string \<times> json) list"

subsection \<open>Fields\<close>

text \<open>
  \<open>fields.Integer()\<close>, \<open>fields.String()\<close> and \<open>fields.Float()\<close> serialise \<open>None\<close> as
  \<open>None\<close> and a value of the column's type as itself; on such values they do
  not fail.
\<close>

definition fields_Integer :: "int option \<Rightarrow> json" where
  "fields_Integer v = (case v of None \<Rightarrow> JNull | Some n \<Rightarrow> JInt n)"

definition fields_String :: "string option \<Rightarrow> json" where
  "fields_String v = (case v of None \<Rightarrow> JNull | Some s \<Rightarrow> JStr s)"

definition fields_Float :: "py_float option \<Rightarrow> json" where
  "fields_Float v = (case v of None \<Rightarrow> JNull | Some x \<Rightarrow> JFloat x)"

text \<open>The first error of a list of results, or all the values.\<close>

fun collect :: "(error + 'a) list \<Rightarrow> error + 'a list" where
  "collect [] = Inr []"
| "collect (Inl e # xs) = Inl e"
| "collect (Inr v # xs) = (case collect xs of Inl e \<Rightarrow> Inl e | Inr vs \<Rightarrow> Inr (v # vs))"

text \<open>
  \<open>fields.Nested(schema)\<close> serialises \<open>None\<close> as \<open>None\<close> and any other object by the
  nested schema's \<open>dump\<close>; with \<open>many=True\<close> it dumps every member of the
  collection. The argument is the attribute's value with the nested \<open>dump\<close> already
  applied to the object or objects in it. \<open>allow_none\<close> is consulted only when
  loading, not when dumping.
\<close>

definition fields_Nested :: "bool \<Rightarrow> (error + json) option \<Rightarrow> error + json" where
  "fields_Nested allow_none v = (case v of None \<Rightarrow> Inr JNull | Some j \<Rightarrow> j)"

definition fields_Nested_many :: "(error + json) list \<Rightarrow> error + json" where
  "fields_Nested_many vs = map_sum id JList (collect vs)"

subsection \<open>Schemas\<close>

text \<open>
  A schema instance dumps its declared fields except those named in \<open>exclude\<close>;
  constructing it with an excluded name that is not a declared field raises
  \<open>ValueError\<close>. Excluded fields are not serialised at all, so an error in one
  of them does not arise.
\<close>

definition in_exclude :: "string list \<Rightarrow> string \<times> 'a \<Rightarrow> bool" where
  "in_exclude exclude kv = (fst kv \<in> set exclude)"

definition bind_key :: "string \<times> (error + json) \<Rightarrow> error + string \<times> json" where
  "bind_key kv = map_sum id (Pair (fst kv)) (snd kv)"

definition Schema_dump :: "string list \<Rightarrow> (string \<times> (error + json)) list \<Rightarrow> error + json" where
  "Schema_dump exclude declared_fields =
     (if \<not> set exclude \<subseteq> set (map fst declared_fields) then Inl ValueError
      else map_sum id JObj
             (collect (map bind_key (filter (\<lambda>kv. \<not> in_exclude exclude kv) declared_fields))))"

text \<open>
  The three schema classes. The first argument bounds the depth of nested calls
  (Python's recursion limit): each nested \<open>dump\<close> runs with one less, and none is
  left at \<open>0\<close>.
  \<^verbatim>\<open>
  class CustomerSchema(Schema):
      id = fields.Integer()
      name = fields.String()
      reviews = fields.Nested(lambda: ReviewSchema(exclude=('customer', 'item')), many=True)

  class ItemSchema(Schema):
      id = fields.Integer()
      name = fields.String()
      price = fields.Float()
      reviews = fields.Nested(lambda: ReviewSchema(exclude=('item', 'customer')), many=True)

  class ReviewSchema(Schema):
      id = fields.Integer()
      comment = fields.String()
      customer = fields.Nested(lambda: CustomerSchema(exclude=('reviews',)), allow_none=True)
      item = fields.Nested(lambda: ItemSchema(exclude=('reviews',)), allow_none=True)
  \<close>
\<close>

fun CustomerSchema_dump :: "nat \<Rightarrow> store \<Rightarrow> string list \<Rightarrow> Customer \<Rightarrow> error + json"
  and ItemSchema_dump :: "nat \<Rightarrow> store \<Rightarrow> string list \<Rightarrow> Item \<Rightarrow> error + json"
  and ReviewSchema_dump :: "nat \<Rightarrow> store \<Rightarrow> string list \<Rightarrow> Review \<Rightarrow> error + json"
where
  "CustomerSchema_dump 0 st exclude c = Inl RecursionError"
| "CustomerSchema_dump (Suc n) st exclude c =
     Schema_dump exclude
       [(''id'', Inr (fields_Integer (Some (Customer_id c)))),
        (''name'', Inr (fields_String (Customer_name c))),
        (''reviews'', fields_Nested_many
           (map (\<lambda>r. ReviewSchema_dump n st [''customer'', ''item''] r) (Customer_reviews st c)))]"
| "ItemSchema_dump 0 st exclude i = Inl RecursionError"
| "ItemSchema_dump (Suc n) st exclude i =
     Schema_dump exclude
       [(''id'', Inr (fields_Integer (Some (Item_id i)))),
        (''name'', Inr (fields_String (Item_name i))),
        (''price'', Inr (fields_Float (Item_price i))),
        (''reviews'', fields_Nested_many
           (map (\<lambda>r. ReviewSchema_dump n st [''item'', ''customer''] r) (Item_reviews st i)))]"
| "ReviewSchema_dump 0 st exclude r = Inl RecursionError"
| "ReviewSchema_dump (Suc n) st exclude r =
     Schema_dump exclude
       [(''id'', Inr (fields_Integer (Some (Review_id r)))),
        (''comment'', Inr (fields_String (Review_comment r))),
        (''customer'', fields_Nested True
           (map_option (\<lambda>c. CustomerSchema_dump n st [''reviews''] c) (Review_customer st r))),
        (''item'', fields_Nested True
           (map_option (\<lambda>i. ItemSchema_dump n st [''reviews''] i) (Review_item st r)))]"

text \<open>
  How deeply dictionaries are nested in a value: \<open>0\<close> for a value without
  dictionaries, and one more than its deepest member for a dictionary.
\<close>

fun depth :: "json \<Rightarrow> nat" and depth_list :: "json list \<Rightarrow> nat"
  and depth_items :: "(string \<times> json) list \<Rightarrow> nat" where
  "depth JNull = 0"
| "depth (JInt n) = 0"
| "depth (JStr s) = 0"
| "depth (JFloat x) = 0"
| "depth (JList js) = depth_list js"
| "depth (JObj kvs) = Suc (depth_items kvs)"
| "depth_list [] = 0"
| "depth_list (j # js) = max (depth j) (depth_list js)"
| "depth_items [] = 0"
| "depth_items (kv # kvs) = max (depth (snd kv)) (depth_items kvs)"

section \<open>Properties to compare with\<close>

text \<open>
  The collection the specification describes for \<open>Customer.items\<close>, in its own
  words: the items whose id occurs among the \<open>item_id\<close> values of the customer's
  reviews, each item once, a null \<open>item_id\<close> contributing nothing. It is compared
  with the association proxy \<open>Customer_items\<close> of the source.
\<close>

definition spec_items :: "store \<Rightarrow> Customer \<Rightarrow> Item list" where
  "spec_items st c =
     filter (\<lambda>i. Some (Item_id i) \<in> set (map Review_item_id (Customer_reviews st c))) (items st)"

section \<open>Example data\<close>

text \<open>
  The example of the specification: one customer, one item and the review that
  links them.
\<close>

definition Ana :: Customer where
  "Ana = \<lparr>Customer_id = 1, Customer_name = Some ''Ana''\<rparr>"

definition Mug :: Item where
  "Mug = \<lparr>Item_id = 5, Item_name = Some ''Mug'', Item_price = Some 9.99\<rparr>"

definition review_10 :: Review where
  "review_10 = \<lparr>Review_id = 10, Review_comment = Some ''ok'',
                 Review_customer_id = Some 1, Review_item_id = Some 5\<rparr>"

definition example_store :: store where
  "example_store = \<lparr>customers = [Ana], items = [Mug], reviews = [review_10]\<rparr>"

text \<open>
  A larger store: a customer with three reviews, two of them of the same item and
  one of no item; a customer without a name; and a review of no customer.
\<close>

definition Bo :: Customer where
  "Bo = \<lparr>Customer_id = 2, Customer_name = None\<rparr>"

definition Pen :: Item where
  "Pen = \<lparr>Item_id = 6, Item_name = Some ''Pen'', Item_price = None\<rparr>"

definition review_11 :: Review where
  "review_11 = \<lparr>Review_id = 11, Review_comment = None,
                 Review_customer_id = Some 1, Review_item_id = Some 5\<rparr>"

definition review_12 :: Review where
  "review_12 = \<lparr>Review_id = 12, Review_comment = Some ''late'',
                 Review_customer_id = Some 1, Review_item_id = None\<rparr>"

definition review_13 :: Review where
  "review_13 = \<lparr>Review_id = 13, Review_comment = Some ''fine'',
                 Review_customer_id = Some 2, Review_item_id = Some 6\<rparr>"

definition review_14 :: Review where
  "review_14 = \<lparr>Review_id = 14, Review_comment = Some ''anonymous'',
                 Review_customer_id = None, Review_item_id = Some 5\<rparr>"

definition sample_store :: store where
  "sample_store =
     \<lparr>customers = [Ana, Bo], items = [Mug, Pen],
      reviews = [review_10, review_11, review_12, review_13, review_14]\<rparr>"

section \<open>Properties\<close>

subsection \<open>Constraint names\<close>

lemma percent_format_fk:
  "percent_format Literal naming_convention_fk (convention_dict t c r) =
     Inr (''fk_'' @ t @ ''_'' @ c @ ''_'' @ r)"
  by (simp add: naming_convention_fk_def convention_dict_def)

text \<open>
  Claim C9. Every generated foreign-key constraint name has the form
  \<open>fk_<table>_<column>_<referred_table>\<close>: whenever the target of the foreign key
  names a referred table, the generated name is the four parts joined by
  underscores; and the two constraints of the reviews table are named
  \<open>fk_reviews_customer_id_customers\<close> and \<open>fk_reviews_item_id_items\<close>.
\<close>

theorem fk_constraint_name_pattern:
  "(referred_table_name target = Inr reftable \<longrightarrow>
      fk_constraint_name table (column, target) =
        Inr (''fk_'' @ table @ ''_'' @ column @ ''_'' @ reftable)) \<and>
   map (fk_constraint_name Review_tablename) Review_foreign_keys =
     [Inr ''fk_reviews_customer_id_customers'', Inr ''fk_reviews_item_id_items'']"
proof (intro conjI impI)
  assume "referred_table_name target = Inr reftable"
  then show "fk_constraint_name table (column, target) =
      Inr (''fk_'' @ table @ ''_'' @ column @ ''_'' @ reftable)"
    by (simp add: fk_constraint_name_def percent_format_fk)
next
  have a: "referred_table_name ''customers.id'' = Inr ''customers''"
    by (simp add: referred_table_name_def)
  have b: "referred_table_name ''items.id'' = Inr ''items''"
    by (simp add: referred_table_name_def)
  show "map (fk_constraint_name Review_tablename) Review_foreign_keys =
      [Inr ''fk_reviews_customer_id_customers'', Inr ''fk_reviews_item_id_items'']"
    by (simp add: Review_foreign_keys_def Review_tablename_def fk_constraint_name_def
        a b percent_format_fk)
qed

theorem fk_constraint_name_pattern_witness:
  "referred_table_name ''customers.id'' = Inr ''customers'' \<and>
   fk_constraint_name ''reviews'' (''customer_id'', ''customers.id'') =
     Inr ''fk_reviews_customer_id_customers''"
proof -
  have a: "referred_table_name ''customers.id'' = Inr ''customers''"
    by (simp add: referred_table_name_def)
  from fk_constraint_name_pattern
    [of "''customers.id''" "''customers''" "''reviews''" "''customer_id''"] a
  show ?thesis by simp
qed

subsection \<open>What each schema instance returns\<close>

declare CustomerSchema_dump.simps [simp del] ItemSchema_dump.simps [simp del]
  ReviewSchema_dump.simps [simp del]

lemma collect_Inr: "collect (map (\<lambda>x. Inr (f x)) xs) = Inr (map f xs)"
  by (induction xs) simp_all

lemma ReviewSchema_dump_flat:
  "ReviewSchema_dump (Suc n) st [''customer'', ''item''] r =
     Inr (JObj [(''id'', JInt (Review_id r)),
                (''comment'', fields_String (Review_comment r))])"
  by (simp add: ReviewSchema_dump.simps CustomerSchema_dump.simps ItemSchema_dump.simps
      Schema_dump_def in_exclude_def bind_key_def fields_Integer_def)

lemma ReviewSchema_dump_flat':
  "ReviewSchema_dump (Suc n) st [''item'', ''customer''] r =
     Inr (JObj [(''id'', JInt (Review_id r)),
                (''comment'', fields_String (Review_comment r))])"
  by (simp add: ReviewSchema_dump.simps CustomerSchema_dump.simps ItemSchema_dump.simps
      Schema_dump_def in_exclude_def bind_key_def fields_Integer_def)

lemma CustomerSchema_dump_flat:
  "CustomerSchema_dump (Suc n) st [''reviews''] c =
     Inr (JObj [(''id'', JInt (Customer_id c)),
                (''name'', fields_String (Customer_name c))])"
  by (simp add: ReviewSchema_dump.simps CustomerSchema_dump.simps ItemSchema_dump.simps
      Schema_dump_def in_exclude_def bind_key_def fields_Integer_def)

lemma ItemSchema_dump_flat:
  "ItemSchema_dump (Suc n) st [''reviews''] i =
     Inr (JObj [(''id'', JInt (Item_id i)),
                (''name'', fields_String (Item_name i)),
                (''price'', fields_Float (Item_price i))])"
  by (simp add: ReviewSchema_dump.simps CustomerSchema_dump.simps ItemSchema_dump.simps
      Schema_dump_def in_exclude_def bind_key_def fields_Integer_def)

lemma ReviewSchema_dump_flat_fun:
  "ReviewSchema_dump (Suc n) st [''customer'', ''item''] =
     (\<lambda>r. Inr (JObj [(''id'', JInt (Review_id r)),
                (''comment'', fields_String (Review_comment r))]))"
  "ReviewSchema_dump (Suc n) st [''item'', ''customer''] =
     (\<lambda>r. Inr (JObj [(''id'', JInt (Review_id r)),
                (''comment'', fields_String (Review_comment r))]))"
  by (rule ext, rule ReviewSchema_dump_flat, rule ext, rule ReviewSchema_dump_flat')

lemma CustomerSchema_dump_full:
  "CustomerSchema_dump (Suc (Suc n)) st [] c =
     Inr (JObj [(''id'', JInt (Customer_id c)),
                (''name'', fields_String (Customer_name c)),
                (''reviews'', JList (map (\<lambda>r. JObj [(''id'', JInt (Review_id r)),
                                               (''comment'', fields_String (Review_comment r))])
                                      (Customer_reviews st c)))])"
  by (simp add: CustomerSchema_dump.simps ItemSchema_dump.simps Schema_dump_def in_exclude_def
      bind_key_def fields_Nested_many_def ReviewSchema_dump_flat_fun collect_Inr
      fields_Integer_def)

lemma ItemSchema_dump_full:
  "ItemSchema_dump (Suc (Suc n)) st [] i =
     Inr (JObj [(''id'', JInt (Item_id i)),
                (''name'', fields_String (Item_name i)),
                (''price'', fields_Float (Item_price i)),
                (''reviews'', JList (map (\<lambda>r. JObj [(''id'', JInt (Review_id r)),
                                               (''comment'', fields_String (Review_comment r))])
                                      (Item_reviews st i)))])"
  by (simp add: CustomerSchema_dump.simps ItemSchema_dump.simps Schema_dump_def in_exclude_def
      bind_key_def fields_Nested_many_def ReviewSchema_dump_flat_fun collect_Inr
      fields_Integer_def)

lemma ReviewSchema_dump_full:
  "ReviewSchema_dump (Suc (Suc n)) st [] r =
     Inr (JObj [(''id'', JInt (Review_id r)),
                (''comment'', fields_String (Review_comment r)),
                (''customer'',
                   (case Review_customer st r of
                      None \<Rightarrow> JNull
                    | Some c \<Rightarrow> JObj [(''id'', JInt (Customer_id c)),
                                     (''name'', fields_String (Customer_name c))])),
                (''item'',
                   (case Review_item st r of
                      None \<Rightarrow> JNull
                    | Some i \<Rightarrow> JObj [(''id'', JInt (Item_id i)),
                                     (''name'', fields_String (Item_name i)),
                                     (''price'', fields_Float (Item_price i))]))])"
  by (simp add: ReviewSchema_dump.simps Schema_dump_def in_exclude_def bind_key_def
      fields_Nested_def CustomerSchema_dump_flat ItemSchema_dump_flat fields_Integer_def
      split: option.splits)

lemmas sample_defs = sample_store_def example_store_def Ana_def Bo_def Mug_def Pen_def
  review_10_def review_11_def review_12_def review_13_def review_14_def

subsection \<open>Customers and items with their reviews\<close>

text \<open>
  Claim C1. For every customer \<open>c\<close> of every store, and every recursion limit of at
  least two, \<open>CustomerSchema().dump(c)\<close> returns a dictionary with exactly the keys
  \<open>id\<close>, \<open>name\<close> and \<open>reviews\<close>; \<open>reviews\<close> is a list with one entry for each row of
  \<open>reviews\<close> whose \<open>customer_id\<close> is the id of \<open>c\<close>, and no entry has a key
  \<open>customer\<close> or \<open>item\<close>.
\<close>

theorem CustomerSchema_dump_reviews:
  "\<exists>rs. CustomerSchema_dump (Suc (Suc n)) st [] c =
          Inr (JObj [(''id'', JInt (Customer_id c)),
                     (''name'', fields_String (Customer_name c)),
                     (''reviews'', JList rs)]) \<and>
        length rs =
          length (filter (\<lambda>r. Review_customer_id r = Some (Customer_id c)) (reviews st)) \<and>
        (\<forall>j \<in> set rs. \<exists>kvs. j = JObj kvs \<and> map_of kvs ''customer'' = None \<and>
                                 map_of kvs ''item'' = None)"
  by (auto simp: CustomerSchema_dump_full fields_Integer_def Customer_reviews_def)

theorem CustomerSchema_dump_reviews_witness:
  "\<exists>rs. CustomerSchema_dump (Suc (Suc 0)) sample_store [] Ana =
          Inr (JObj [(''id'', JInt 1), (''name'', JStr ''Ana''), (''reviews'', JList rs)]) \<and>
        length rs = 3 \<and>
        list_all (\<lambda>j. \<exists>kvs. j = JObj kvs \<and> map_of kvs ''customer'' = None \<and>
                              map_of kvs ''item'' = None) rs"
proof -
  from CustomerSchema_dump_reviews [of 0 sample_store Ana] obtain rs where
    a: "CustomerSchema_dump (Suc (Suc 0)) sample_store [] Ana =
          Inr (JObj [(''id'', JInt (Customer_id Ana)),
                     (''name'', fields_String (Customer_name Ana)),
                     (''reviews'', JList rs)])" and
    b: "length rs = length (filter (\<lambda>r. Review_customer_id r = Some (Customer_id Ana))
          (reviews sample_store))" and
    c: "\<forall>j \<in> set rs. \<exists>kvs. j = JObj kvs \<and> map_of kvs ''customer'' = None \<and>
                                 map_of kvs ''item'' = None"
    by blast
  have "length (filter (\<lambda>r. Review_customer_id r = Some (Customer_id Ana))
          (reviews sample_store)) = 3"
    by (simp add: sample_defs)
  with a b c show ?thesis
    by (auto simp: list_all_iff Ana_def fields_String_def)
qed

text \<open>
  Claim C7. For every item \<open>i\<close>, \<open>ItemSchema().dump(i)\<close> returns a dictionary with
  exactly the keys \<open>id\<close>, \<open>name\<close>, \<open>price\<close> and \<open>reviews\<close>; \<open>reviews\<close> has one entry
  for each review of the item, and no entry has a key \<open>item\<close> or \<open>customer\<close>.
\<close>

theorem ItemSchema_dump_reviews:
  "\<exists>rs. ItemSchema_dump (Suc (Suc n)) st [] i =
          Inr (JObj [(''id'', JInt (Item_id i)),
                     (''name'', fields_String (Item_name i)),
                     (''price'', fields_Float (Item_price i)),
                     (''reviews'', JList rs)]) \<and>
        length rs = length (filter (\<lambda>r. Review_item_id r = Some (Item_id i)) (reviews st)) \<and>
        (\<forall>j \<in> set rs. \<exists>kvs. j = JObj kvs \<and> map_of kvs ''item'' = None \<and>
                                 map_of kvs ''customer'' = None)"
  by (auto simp: ItemSchema_dump_full fields_Integer_def Item_reviews_def)

theorem ItemSchema_dump_reviews_witness:
  "\<exists>rs. ItemSchema_dump (Suc (Suc 0)) sample_store [] Mug =
          Inr (JObj [(''id'', JInt 5), (''name'', JStr ''Mug''), (''price'', JFloat 9.99),
                     (''reviews'', JList rs)]) \<and>
        length rs = 3 \<and>
        list_all (\<lambda>j. \<exists>kvs. j = JObj kvs \<and> map_of kvs ''item'' = None \<and>
                              map_of kvs ''customer'' = None) rs"
proof -
  from ItemSchema_dump_reviews [of 0 sample_store Mug] obtain rs where
    a: "ItemSchema_dump (Suc (Suc 0)) sample_store [] Mug =
          Inr (JObj [(''id'', JInt (Item_id Mug)),
                     (''name'', fields_String (Item_name Mug)),
                     (''price'', fields_Float (Item_price Mug)),
                     (''reviews'', JList rs)])" and
    b: "length rs = length (filter (\<lambda>r. Review_item_id r = Some (Item_id Mug))
          (reviews sample_store))" and
    c: "\<forall>j \<in> set rs. \<exists>kvs. j = JObj kvs \<and> map_of kvs ''item'' = None \<and>
                                 map_of kvs ''customer'' = None"
    by blast
  have "length (filter (\<lambda>r. Review_item_id r = Some (Item_id Mug))
          (reviews sample_store)) = 3"
    by (simp add: sample_defs)
  with a b c show ?thesis
    by (auto simp: list_all_iff Mug_def fields_String_def fields_Float_def)
qed

subsection \<open>Reviews with their customer and item\<close>

text \<open>
  Claim C2. For every review \<open>r\<close>, \<open>ReviewSchema().dump(r)\<close> returns a dictionary
  with the keys \<open>id\<close>, \<open>comment\<close>, \<open>customer\<close> and \<open>item\<close>; the nested customer has
  only \<open>id\<close> and \<open>name\<close> and the nested item only \<open>id\<close>, \<open>name\<close> and \<open>price\<close>
  (neither has \<open>reviews\<close>); and a null \<open>customer_id\<close> or \<open>item_id\<close> makes the
  nested value \<open>None\<close>, the dump still returning normally.
\<close>

theorem ReviewSchema_dump_nested:
  "ReviewSchema_dump (Suc (Suc n)) st [] r =
     Inr (JObj [(''id'', JInt (Review_id r)),
                (''comment'', fields_String (Review_comment r)),
                (''customer'',
                   (case Review_customer st r of
                      None \<Rightarrow> JNull
                    | Some c \<Rightarrow> JObj [(''id'', JInt (Customer_id c)),
                                     (''name'', fields_String (Customer_name c))])),
                (''item'',
                   (case Review_item st r of
                      None \<Rightarrow> JNull
                    | Some i \<Rightarrow> JObj [(''id'', JInt (Item_id i)),
                                     (''name'', fields_String (Item_name i)),
                                     (''price'', fields_Float (Item_price i))]))]) \<and>
   (Review_customer_id r = None \<longrightarrow> Review_customer st r = None) \<and>
   (Review_item_id r = None \<longrightarrow> Review_item st r = None)"
  by (simp add: ReviewSchema_dump_full fields_Integer_def Review_customer_def Review_item_def)

theorem ReviewSchema_dump_nested_witness:
  "Review_item_id review_12 = None \<and>
   ReviewSchema_dump (Suc (Suc 0)) sample_store [] review_12 =
     Inr (JObj [(''id'', JInt 12), (''comment'', JStr ''late''),
                (''customer'', JObj [(''id'', JInt 1), (''name'', JStr ''Ana'')]),
                (''item'', JNull)]) \<and>
   Review_customer_id review_14 = None \<and>
   ReviewSchema_dump (Suc (Suc 0)) sample_store [] review_14 =
     Inr (JObj [(''id'', JInt 14), (''comment'', JStr ''anonymous''),
                (''customer'', JNull),
                (''item'', JObj [(''id'', JInt 5), (''name'', JStr ''Mug''),
                                 (''price'', JFloat 9.99)])])"
proof -
  have a: "Review_item_id review_12 = None" and b: "Review_customer_id review_14 = None"
    by (simp_all add: review_12_def review_14_def)
  have c: "Review_customer sample_store review_12 = Some Ana"
    and d: "Review_item sample_store review_14 = Some Mug"
    by (simp_all add: Review_customer_def Review_item_def sample_defs)
  from ReviewSchema_dump_nested [of 0 sample_store review_12]
    ReviewSchema_dump_nested [of 0 sample_store review_14] a b c d
  show ?thesis
    by (simp add: fields_String_def fields_Float_def) (simp add: sample_defs)
qed

text \<open>
  Claim C10. For every review whose customer reference is null, the dump has the
  key \<open>customer\<close> and its value is \<open>None\<close>; likewise for \<open>item\<close>. The key is never
  left out.
\<close>

theorem ReviewSchema_dump_null_key:
  "(Review_customer st r = None \<longrightarrow>
      (\<exists>kvs. ReviewSchema_dump (Suc (Suc n)) st [] r = Inr (JObj kvs) \<and>
             map_of kvs ''customer'' = Some JNull)) \<and>
   (Review_item st r = None \<longrightarrow>
      (\<exists>kvs. ReviewSchema_dump (Suc (Suc n)) st [] r = Inr (JObj kvs) \<and>
             map_of kvs ''item'' = Some JNull))"
  by (simp add: ReviewSchema_dump_full)

theorem ReviewSchema_dump_null_key_witness:
  "Review_customer sample_store review_14 = None \<and>
   (\<exists>kvs. ReviewSchema_dump (Suc (Suc 0)) sample_store [] review_14 = Inr (JObj kvs) \<and>
          map_of kvs ''customer'' = Some JNull) \<and>
   Review_item sample_store review_12 = None \<and>
   (\<exists>kvs. ReviewSchema_dump (Suc (Suc 0)) sample_store [] review_12 = Inr (JObj kvs) \<and>
          map_of kvs ''item'' = Some JNull)"
proof -
  have a: "Review_customer sample_store review_14 = None"
    and b: "Review_item sample_store review_12 = None"
    by (simp_all add: Review_customer_def Review_item_def review_12_def review_14_def)
  from ReviewSchema_dump_null_key [of sample_store review_14 0]
    ReviewSchema_dump_null_key [of sample_store review_12 0] a b
  show ?thesis by simp
qed

text \<open>
  Claim C6. The example of the specification: with customer Ana (id 1), item Mug
  (id 5, price 9.99) and review 10 (comment "ok") linking them, the customer is
  dumped as \<open>{id: 1, name: "Ana", reviews: [{id: 10, comment: "ok"}]}\<close> and the
  review as \<open>{id: 10, comment: "ok", customer: {id: 1, name: "Ana"}, item: {id: 5,
  name: "Mug", price: 9.99}}\<close>.
\<close>

theorem example_dump:
  "CustomerSchema_dump (Suc (Suc n)) example_store [] Ana =
     Inr (JObj [(''id'', JInt 1), (''name'', JStr ''Ana''),
                (''reviews'', JList [JObj [(''id'', JInt 10), (''comment'', JStr ''ok'')]])]) \<and>
   ReviewSchema_dump (Suc (Suc n)) example_store [] review_10 =
     Inr (JObj [(''id'', JInt 10), (''comment'', JStr ''ok''),
                (''customer'', JObj [(''id'', JInt 1), (''name'', JStr ''Ana'')]),
                (''item'', JObj [(''id'', JInt 5), (''name'', JStr ''Mug''),
                                 (''price'', JFloat 9.99)])])"
  by (simp add: CustomerSchema_dump_full ReviewSchema_dump_full sample_defs
      Customer_reviews_def Review_customer_def Review_item_def
      fields_Integer_def fields_String_def fields_Float_def)

theorem example_dump_witness:
  "CustomerSchema_dump (Suc (Suc 0)) example_store [] Ana =
     Inr (JObj [(''id'', JInt 1), (''name'', JStr ''Ana''),
                (''reviews'', JList [JObj [(''id'', JInt 10), (''comment'', JStr ''ok'')]])]) \<and>
   ReviewSchema_dump (Suc (Suc 0)) example_store [] review_10 =
     Inr (JObj [(''id'', JInt 10), (''comment'', JStr ''ok''),
                (''customer'', JObj [(''id'', JInt 1), (''name'', JStr ''Ana'')]),
                (''item'', JObj [(''id'', JInt 5), (''name'', JStr ''Mug''),
                                 (''price'', JFloat 9.99)])])"
  by (rule example_dump [of 0])

subsection \<open>Termination and depth\<close>

lemma depth_list_flat:
  "depth_list (map (\<lambda>r. JObj [(''id'', JInt (Review_id r)),
                             (''comment'', fields_String (Review_comment r))]) rs) \<le> Suc 0"
  by (induction rs) (simp_all add: fields_Integer_def fields_String_def split: option.splits)

lemma depth_fields [simp]:
  "depth (fields_Integer a) = 0" "depth (fields_String b) = 0" "depth (fields_Float x) = 0"
  by (simp_all add: fields_Integer_def fields_String_def fields_Float_def split: option.splits)

text \<open>
  Claim C5. Whatever the store holds (the relationships between its rows are
  cyclic as soon as one review has a customer or an item), each of the three
  schemas returns a value as soon as two nested calls are allowed, and that value
  nests dictionaries at most two deep. The schema instances used for nested
  values (reviews without \<open>customer\<close> and \<open>item\<close>, customers and items without
  \<open>reviews\<close>) return with a single call and a value of depth one: they make no
  nested call.
\<close>

theorem dump_terminates_depth_2:
  "(\<exists>j. CustomerSchema_dump (Suc (Suc n)) st [] c = Inr j \<and> depth j \<le> 2) \<and>
   (\<exists>j. ItemSchema_dump (Suc (Suc n)) st [] i = Inr j \<and> depth j \<le> 2) \<and>
   (\<exists>j. ReviewSchema_dump (Suc (Suc n)) st [] r = Inr j \<and> depth j \<le> 2) \<and>
   (\<exists>j. ReviewSchema_dump (Suc n) st [''customer'', ''item''] r = Inr j \<and> depth j \<le> 1) \<and>
   (\<exists>j. ReviewSchema_dump (Suc n) st [''item'', ''customer''] r = Inr j \<and> depth j \<le> 1) \<and>
   (\<exists>j. CustomerSchema_dump (Suc n) st [''reviews''] c = Inr j \<and> depth j \<le> 1) \<and>
   (\<exists>j. ItemSchema_dump (Suc n) st [''reviews''] i = Inr j \<and> depth j \<le> 1)"
proof (intro conjI)
  show "\<exists>j. CustomerSchema_dump (Suc (Suc n)) st [] c = Inr j \<and> depth j \<le> 2"
    using depth_list_flat [of "Customer_reviews st c"]
    by (simp add: CustomerSchema_dump_full)
  show "\<exists>j. ItemSchema_dump (Suc (Suc n)) st [] i = Inr j \<and> depth j \<le> 2"
    using depth_list_flat [of "Item_reviews st i"]
    by (simp add: ItemSchema_dump_full)
  show "\<exists>j. ReviewSchema_dump (Suc (Suc n)) st [] r = Inr j \<and> depth j \<le> 2"
    by (simp add: ReviewSchema_dump_full split: option.splits)
  show "\<exists>j. ReviewSchema_dump (Suc n) st [''customer'', ''item''] r = Inr j \<and> depth j \<le> 1"
    by (simp add: ReviewSchema_dump_flat)
  show "\<exists>j. ReviewSchema_dump (Suc n) st [''item'', ''customer''] r = Inr j \<and> depth j \<le> 1"
    by (simp add: ReviewSchema_dump_flat')
  show "\<exists>j. CustomerSchema_dump (Suc n) st [''reviews''] c = Inr j \<and> depth j \<le> 1"
    by (simp add: CustomerSchema_dump_flat)
  show "\<exists>j. ItemSchema_dump (Suc n) st [''reviews''] i = Inr j \<and> depth j \<le> 1"
    by (simp add: ItemSchema_dump_flat)
qed

theorem dump_terminates_depth_2_witness:
  "(\<exists>j. CustomerSchema_dump (Suc (Suc 0)) sample_store [] Ana = Inr j \<and> depth j \<le> 2) \<and>
   (\<exists>j. ItemSchema_dump (Suc (Suc 0)) sample_store [] Mug = Inr j \<and> depth j \<le> 2) \<and>
   (\<exists>j. ReviewSchema_dump (Suc (Suc 0)) sample_store [] review_10 = Inr j \<and> depth j \<le> 2) \<and>
   (\<exists>j. ReviewSchema_dump (Suc 0) sample_store [''customer'', ''item''] review_10 = Inr j \<and>
        depth j \<le> 1) \<and>
   (\<exists>j. ReviewSchema_dump (Suc 0) sample_store [''item'', ''customer''] review_10 = Inr j \<and>
        depth j \<le> 1) \<and>
   (\<exists>j. CustomerSchema_dump (Suc 0) sample_store [''reviews''] Ana = Inr j \<and> depth j \<le> 1) \<and>
   (\<exists>j. ItemSchema_dump (Suc 0) sample_store [''reviews''] Mug = Inr j \<and> depth j \<le> 1)"
  by (rule dump_terminates_depth_2 [of 0 sample_store Ana Mug review_10])

subsection \<open>Deleting a customer or an item\<close>

lemma cascade_Customer_reviews:
  "cascade_options (cascade rel_Customer_reviews) =
     Inr [''delete-orphan'', ''save-update'', ''merge'', ''refresh-expire'', ''expunge'', ''delete'']"
  by (simp add: cascade_options_def rel_Customer_reviews_def strip_def all_cascades_def)

lemma cascade_Item_reviews:
  "cascade_options (cascade rel_Item_reviews) =
     Inr [''delete-orphan'', ''save-update'', ''merge'', ''refresh-expire'', ''expunge'', ''delete'']"
  by (simp add: cascade_options_def rel_Item_reviews_def strip_def all_cascades_def)

lemma flush_children_delete:
  "''delete'' \<in> set opts \<Longrightarrow> flush_children opts refers nullify rows = filter (\<lambda>r. \<not> refers r) rows"
  by (simp add: flush_children_def)

lemma delete_Customer_eq:
  "c \<in> set (customers st) \<Longrightarrow>
   delete_Customer st c =
     Inr (st\<lparr>customers := filter (\<lambda>x. Customer_id x \<noteq> Customer_id c) (customers st),
             reviews := filter (\<lambda>r. Review_customer_id r \<noteq> Some (Customer_id c)) (reviews st)\<rparr>)"
  by (simp add: delete_Customer_def cascade_Customer_reviews flush_children_delete)

lemma delete_Item_eq:
  "i \<in> set (items st) \<Longrightarrow>
   delete_Item st i =
     Inr (st\<lparr>items := filter (\<lambda>x. Item_id x \<noteq> Item_id i) (items st),
             reviews := filter (\<lambda>r. Review_item_id r \<noteq> Some (Item_id i)) (reviews st)\<rparr>)"
  by (simp add: delete_Item_def cascade_Item_reviews flush_children_delete)

lemma length_filter_split:
  "length (filter (\<lambda>x. \<not> P x) xs) + length (filter P xs) = length xs"
  by (induction xs) simp_all

lemma fk_in_filter:
  "j \<in> set (map f xs) \<Longrightarrow> j \<noteq> k \<Longrightarrow> j \<in> set (map f (filter (\<lambda>x. f x \<noteq> k) xs))"
  by (induction xs) auto

lemma no_dangling_delete_Customer:
  assumes "no_dangling st"
  shows "no_dangling (st\<lparr>customers := filter (\<lambda>x. Customer_id x \<noteq> k) (customers st),
             reviews := filter (\<lambda>r. Review_customer_id r \<noteq> Some k) (reviews st)\<rparr>)"
proof -
  have "(case Review_customer_id r of
           None \<Rightarrow> True
         | Some j \<Rightarrow> j \<in> set (map Customer_id (filter (\<lambda>x. Customer_id x \<noteq> k) (customers st)))) \<and>
        (case Review_item_id r of
           None \<Rightarrow> True
         | Some j \<Rightarrow> j \<in> set (map Item_id (items st)))"
    if r: "r \<in> set (reviews st)" "Review_customer_id r \<noteq> Some k" for r
  proof -
    from assms r(1) have
      c: "case Review_customer_id r of
            None \<Rightarrow> True
          | Some j \<Rightarrow> j \<in> set (map Customer_id (customers st))" and
      i: "case Review_item_id r of
            None \<Rightarrow> True
          | Some j \<Rightarrow> j \<in> set (map Item_id (items st))"
      by (simp_all add: no_dangling_def list_all_iff)
    show ?thesis
    proof (cases "Review_customer_id r")
      case None
      with i show ?thesis by simp
    next
      case (Some j)
      with r(2) have "j \<noteq> k" by simp
      moreover from c Some have "j \<in> set (map Customer_id (customers st))" by simp
      ultimately have "j \<in> set (map Customer_id (filter (\<lambda>x. Customer_id x \<noteq> k) (customers st)))"
        by (rule fk_in_filter [rotated])
      with Some i show ?thesis by simp
    qed
  qed
  then show ?thesis
    by (simp add: no_dangling_def list_all_iff cong: option.case_cong)
qed

lemma no_dangling_delete_Item:
  assumes "no_dangling st"
  shows "no_dangling (st\<lparr>items := filter (\<lambda>x. Item_id x \<noteq> k) (items st),
             reviews := filter (\<lambda>r. Review_item_id r \<noteq> Some k) (reviews st)\<rparr>)"
proof -
  have "(case Review_customer_id r of
           None \<Rightarrow> True
         | Some j \<Rightarrow> j \<in> set (map Customer_id (customers st))) \<and>
        (case Review_item_id r of
           None \<Rightarrow> True
         | Some j \<Rightarrow> j \<in> set (map Item_id (filter (\<lambda>x. Item_id x \<noteq> k) (items st))))"
    if r: "r \<in> set (reviews st)" "Review_item_id r \<noteq> Some k" for r
  proof -
    from assms r(1) have
      c: "case Review_customer_id r of
            None \<Rightarrow> True
          | Some j \<Rightarrow> j \<in> set (map Customer_id (customers st))" and
      i: "case Review_item_id r of
            None \<Rightarrow> True
          | Some j \<Rightarrow> j \<in> set (map Item_id (items st))"
      by (simp_all add: no_dangling_def list_all_iff)
    show ?thesis
    proof (cases "Review_item_id r")
      case None
      with c show ?thesis by simp
    next
      case (Some j)
      with r(2) have "j \<noteq> k" by simp
      moreover from i Some have "j \<in> set (map Item_id (items st))" by simp
      ultimately have "j \<in> set (map Item_id (filter (\<lambda>x. Item_id x \<noteq> k) (items st)))"
        by (rule fk_in_filter [rotated])
      with Some c show ?thesis by simp
    qed
  qed
  then show ?thesis
    by (simp add: no_dangling_def list_all_iff cong: option.case_cong)
qed

text \<open>
  Claim C4. Deleting a persistent customer succeeds and leaves exactly the reviews
  that do not refer to it, unchanged and in order: the reviews removed are the
  customer's own, as many as it had, none of the remaining ones refers to the
  deleted customer, and a store without dangling foreign keys stays so. The same
  holds for deleting an item.
\<close>

theorem delete_cascades:
  "(c \<in> set (customers st) \<longrightarrow>
      (\<exists>st'. delete_Customer st c = Inr st' \<and>
         reviews st' = filter (\<lambda>r. Review_customer_id r \<noteq> Some (Customer_id c)) (reviews st) \<and>
         length (reviews st') + length (Customer_reviews st c) = length (reviews st) \<and>
         Customer_reviews st' c = [] \<and>
         items st' = items st \<and>
         (no_dangling st \<longrightarrow> no_dangling st'))) \<and>
   (i \<in> set (items st) \<longrightarrow>
      (\<exists>st'. delete_Item st i = Inr st' \<and>
         reviews st' = filter (\<lambda>r. Review_item_id r \<noteq> Some (Item_id i)) (reviews st) \<and>
         length (reviews st') + length (Item_reviews st i) = length (reviews st) \<and>
         Item_reviews st' i = [] \<and>
         customers st' = customers st \<and>
         (no_dangling st \<longrightarrow> no_dangling st')))"
proof (intro conjI impI)
  assume c: "c \<in> set (customers st)"
  let ?st = "st\<lparr>customers := filter (\<lambda>x. Customer_id x \<noteq> Customer_id c) (customers st),
             reviews := filter (\<lambda>r. Review_customer_id r \<noteq> Some (Customer_id c)) (reviews st)\<rparr>"
  have 1: "delete_Customer st c = Inr ?st"
    using c by (rule delete_Customer_eq)
  have 2: "length (reviews ?st) + length (Customer_reviews st c) = length (reviews st)"
    using length_filter_split [of "\<lambda>r. Review_customer_id r = Some (Customer_id c)" "reviews st"]
    by (simp add: Customer_reviews_def)
  have 3: "Customer_reviews ?st c = []"
    by (simp add: Customer_reviews_def filter_empty_conv)
  have 4: "no_dangling st \<longrightarrow> no_dangling ?st"
    by (simp add: no_dangling_delete_Customer)
  show "\<exists>st'. delete_Customer st c = Inr st' \<and>
         reviews st' = filter (\<lambda>r. Review_customer_id r \<noteq> Some (Customer_id c)) (reviews st) \<and>
         length (reviews st') + length (Customer_reviews st c) = length (reviews st) \<and>
         Customer_reviews st' c = [] \<and>
         items st' = items st \<and>
         (no_dangling st \<longrightarrow> no_dangling st')"
    using 1 2 3 4 by (intro exI [of _ ?st]) simp
next
  assume i: "i \<in> set (items st)"
  let ?st = "st\<lparr>items := filter (\<lambda>x. Item_id x \<noteq> Item_id i) (items st),
             reviews := filter (\<lambda>r. Review_item_id r \<noteq> Some (Item_id i)) (reviews st)\<rparr>"
  have 1: "delete_Item st i = Inr ?st"
    using i by (rule delete_Item_eq)
  have 2: "length (reviews ?st) + length (Item_reviews st i) = length (reviews st)"
    using length_filter_split [of "\<lambda>r. Review_item_id r = Some (Item_id i)" "reviews st"]
    by (simp add: Item_reviews_def)
  have 3: "Item_reviews ?st i = []"
    by (simp add: Item_reviews_def filter_empty_conv)
  have 4: "no_dangling st \<longrightarrow> no_dangling ?st"
    by (simp add: no_dangling_delete_Item)
  show "\<exists>st'. delete_Item st i = Inr st' \<and>
         reviews st' = filter (\<lambda>r. Review_item_id r \<noteq> Some (Item_id i)) (reviews st) \<and>
         length (reviews st') + length (Item_reviews st i) = length (reviews st) \<and>
         Item_reviews st' i = [] \<and>
         customers st' = customers st \<and>
         (no_dangling st \<longrightarrow> no_dangling st')"
    using 1 2 3 4 by (intro exI [of _ ?st]) simp
qed

theorem delete_cascades_witness:
  "Ana \<in> set (customers sample_store) \<and> Mug \<in> set (items sample_store) \<and>
   no_dangling sample_store \<and>
   delete_Customer sample_store Ana =
     Inr \<lparr>customers = [Bo], items = [Mug, Pen], reviews = [review_13, review_14]\<rparr> \<and>
   no_dangling \<lparr>customers = [Bo], items = [Mug, Pen], reviews = [review_13, review_14]\<rparr> \<and>
   delete_Item sample_store Mug =
     Inr \<lparr>customers = [Ana, Bo], items = [Pen], reviews = [review_12, review_13]\<rparr> \<and>
   no_dangling \<lparr>customers = [Ana, Bo], items = [Pen], reviews = [review_12, review_13]\<rparr>"
proof -
  have a: "Ana \<in> set (customers sample_store)" and m: "Mug \<in> set (items sample_store)"
    by (simp_all add: sample_store_def)
  have n: "no_dangling sample_store"
    by (simp add: no_dangling_def sample_defs)
  from delete_cascades [of Ana sample_store Mug] a m n
  obtain s1 s2 where
    s1: "delete_Customer sample_store Ana = Inr s1" "no_dangling s1" and
    s2: "delete_Item sample_store Mug = Inr s2" "no_dangling s2"
    by blast
  have e1: "delete_Customer sample_store Ana =
      Inr \<lparr>customers = [Bo], items = [Mug, Pen], reviews = [review_13, review_14]\<rparr>"
    by (simp add: delete_Customer_eq [OF a]) (simp add: sample_defs)
  have e2: "delete_Item sample_store Mug =
      Inr \<lparr>customers = [Ana, Bo], items = [Pen], reviews = [review_12, review_13]\<rparr>"
    by (simp add: delete_Item_eq [OF m]) (simp add: sample_defs)
  from s1 s2 e1 e2 a m n show ?thesis by simp
qed

subsection \<open>The association proxy\<close>

lemma find_distinct_key:
  "distinct (map f xs) \<Longrightarrow> x \<in> set xs \<Longrightarrow> find (\<lambda>y. f y = f x) xs = Some x"
  by (induction xs) (auto simp: rev_image_eqI)

lemma find_SomeD: "find P xs = Some x \<Longrightarrow> x \<in> set xs \<and> P x"
  by (induction xs) (auto split: if_splits)

text \<open>
  Claim C3, as stated, fails. In the larger store Ana has three reviews: two of
  the item Mug and one of no item. Her \<open>items\<close> holds Mug twice and a \<open>None\<close>,
  whereas the collection the claim describes holds Mug once and nothing else.
\<close>

theorem Customer_items_counterexample:
  "Customer_items sample_store Ana = [Some Mug, Some Mug, None] \<and>
   spec_items sample_store Ana = [Mug] \<and>
   \<not> distinct (Customer_items sample_store Ana) \<and>
   None \<in> set (Customer_items sample_store Ana) \<and>
   set (Customer_items sample_store Ana) \<noteq> Some ` set (spec_items sample_store Ana)"
proof -
  have a: "Customer_items sample_store Ana = [Some Mug, Some Mug, None]"
    by (simp add: Customer_items_def Customer_reviews_def Review_item_def sample_defs)
  have b: "spec_items sample_store Ana = [Mug]"
    by (simp add: spec_items_def Customer_reviews_def sample_defs)
  show ?thesis
    unfolding a b by auto
qed

lemma Customer_items_nonnull:
  assumes "distinct (map Item_id (items st))"
  shows "{i. Some i \<in> set (Customer_items st c)} = set (spec_items st c)"
proof (intro set_eqI iffI)
  fix i
  assume "i \<in> {i. Some i \<in> set (Customer_items st c)}"
  then obtain r where r: "r \<in> set (Customer_reviews st c)" "Review_item st r = Some i"
    by (auto simp: Customer_items_def)
  from r(2) obtain k where k: "Review_item_id r = Some k"
    "find (\<lambda>x. Item_id x = k) (items st) = Some i"
    by (auto simp: Review_item_def split: option.splits)
  from find_SomeD [OF k(2)] have "i \<in> set (items st)" "Item_id i = k" by simp_all
  with r(1) k(1) show "i \<in> set (spec_items st c)"
    by (force simp: spec_items_def)
next
  fix i
  assume "i \<in> set (spec_items st c)"
  then obtain r where i: "i \<in> set (items st)" and
    r: "r \<in> set (Customer_reviews st c)" "Review_item_id r = Some (Item_id i)"
    by (auto simp: spec_items_def)
  from find_distinct_key [OF assms i] r(2) have "Review_item st r = Some i"
    by (simp add: Review_item_def)
  with r(1) show "i \<in> {i. Some i \<in> set (Customer_items st c)}"
    by (force simp: Customer_items_def)
qed

text \<open>
  Claim C3, amended. \<open>Customer.items\<close> has one entry for each review of the
  customer, in the order of the reviews: the review's \<open>item\<close>, which is \<open>None\<close> for
  a null \<open>item_id\<close>; so an item reviewed several times occurs several times. Where
  item ids are unique, the entries other than \<open>None\<close> are, as a set, exactly the
  items whose id occurs among the \<open>item_id\<close> values of the customer's reviews.
\<close>

theorem Customer_items_entries:
  "length (Customer_items st c) = length (Customer_reviews st c) \<and>
   (\<forall>k < length (Customer_reviews st c).
      Customer_items st c ! k = Review_item st (Customer_reviews st c ! k)) \<and>
   (distinct (map Item_id (items st)) \<longrightarrow>
      {i. Some i \<in> set (Customer_items st c)} = set (spec_items st c))"
  by (simp add: Customer_items_nonnull) (simp add: Customer_items_def)

theorem Customer_items_entries_witness:
  "distinct (map Item_id (items sample_store)) \<and>
   length (Customer_reviews sample_store Ana) = 3 \<and>
   length (Customer_items sample_store Ana) = 3 \<and>
   Customer_items sample_store Ana ! 2 = Review_item sample_store review_12 \<and>
   {i. Some i \<in> set (Customer_items sample_store Ana)} = {Mug}"
proof -
  have d: "distinct (map Item_id (items sample_store))"
    by (simp add: sample_defs)
  have r: "Customer_reviews sample_store Ana = [review_10, review_11, review_12]"
    by (simp add: Customer_reviews_def sample_defs)
  have s: "spec_items sample_store Ana = [Mug]"
    by (simp add: spec_items_def r) (simp add: sample_defs)
  from Customer_items_entries [of sample_store Ana] d
  have "length (Customer_items sample_store Ana) = length (Customer_reviews sample_store Ana)"
    and "\<forall>k < length (Customer_reviews sample_store Ana).
      Customer_items sample_store Ana ! k =
        Review_item sample_store (Customer_reviews sample_store Ana ! k)"
    and "{i. Some i \<in> set (Customer_items sample_store Ana)} = set (spec_items sample_store Ana)"
    by blast+
  with d show ?thesis
    by (simp add: r s)
qed

subsection \<open>The two sides of a link\<close>





text \<open>The fields of the session after an assignment.\<close>

lemma set_Review_customer_fields [simp]:
  "persisted (set_Review_customer s r new) = persisted s"
  "Item_reviews_attr (set_Review_customer s r new) = Item_reviews_attr s"
  "Review_item_attr (set_Review_customer s r new) = Review_item_attr s"
  "Item_unparented (set_Review_customer s r new) = Item_unparented s"
  "Review_customer_attr (set_Review_customer s r new) = (Review_customer_attr s)(r := new)"
  by (auto simp: set_Review_customer_def Customer_reviews_add_def Customer_reviews_pop_def
      Let_def split: option.splits)



lemma set_Review_item_fields [simp]:
  "persisted (set_Review_item s r new) = persisted s"
  "Customer_reviews_attr (set_Review_item s r new) = Customer_reviews_attr s"
  "Review_customer_attr (set_Review_item s r new) = Review_customer_attr s"
  "Customer_unparented (set_Review_item s r new) = Customer_unparented s"
  "Review_item_attr (set_Review_item s r new) = (Review_item_attr s)(r := new)"
  by (auto simp: set_Review_item_def Item_reviews_add_def Item_reviews_pop_def
      Let_def split: option.splits)



text \<open>The fields of the session after an append.\<close>

lemma append_Customer_reviews_fields [simp]:
  "persisted (append_Customer_reviews s c r) = persisted s"
  "Item_reviews_attr (append_Customer_reviews s c r) = Item_reviews_attr s"
  "Review_item_attr (append_Customer_reviews s c r) = Review_item_attr s"
  "Item_unparented (append_Customer_reviews s c r) = Item_unparented s"
  "Review_customer_attr (append_Customer_reviews s c r) = (Review_customer_attr s)(r := Some c)"
  "Customer_unparented (append_Customer_reviews s c r) = Customer_unparented s - {r}"
  by (auto simp: append_Customer_reviews_def Customer_reviews_pop_def rel_Customer_reviews_def
      Let_def split: option.splits)


lemma append_Item_reviews_fields [simp]:
  "persisted (append_Item_reviews s i r) = persisted s"
  "Customer_reviews_attr (append_Item_reviews s i r) = Customer_reviews_attr s"
  "Review_customer_attr (append_Item_reviews s i r) = Review_customer_attr s"
  "Customer_unparented (append_Item_reviews s i r) = Customer_unparented s"
  "Review_item_attr (append_Item_reviews s i r) = (Review_item_attr s)(r := Some i)"
  "Item_unparented (append_Item_reviews s i r) = Item_unparented s - {r}"
  by (auto simp: append_Item_reviews_def Item_reviews_pop_def rel_Item_reviews_def
      Let_def split: option.splits)








lemma load_fields [simp]:
  "persisted (load st) = st"
  "Customer_reviews_attr (load st) = Customer_reviews st"
  "Item_reviews_attr (load st) = Item_reviews st"
  "Review_customer_attr (load st) = Review_customer st"
  "Review_item_attr (load st) = Review_item st"
  "Customer_unparented (load st) = {}"
  "Item_unparented (load st) = {}"
  by (simp_all add: load_def)




















end
